theory Spec2Isabelle
  imports Main "HOL-Library.Multiset"
begin

section \<open>The announcement endpoints (src/backend/routers/announcements.py)\<close>

subsection \<open>Data\<close>

text \<open>
  A \<open>datetime\<close> is a point on a linear time axis; the store compares the values it was
  given. The store's \<open>_id\<close> of an announcement is an opaque \<open>ObjectId\<close>, kept as a
  type parameter \<open>'oid\<close>.
\<close>

type_synonym datetime = int

text \<open>
  An announcement document. \<open>starts_at\<close> is \<open>None\<close> when the field is null or
  missing: \<open>doc.get("starts_at")\<close> reads both as \<open>None\<close> and the query of
  \<open>get_active_announcements\<close> accepts both.
\<close>

record 'oid announcement =
  doc_id :: 'oid
  message :: string
  starts_at :: "datetime option"
  expires_at :: datetime
  created_by :: string
  created_at :: datetime

text \<open>A teacher document: its \<open>_id\<close> and its \<open>username\<close> field, when it has one.\<close>

record teacher =
  teacher_id :: string
  username :: "string option"

record 'oid database =
  announcements_collection :: "'oid announcement list"
  teachers_collection :: "teacher list"

datatype http_error = HTTPException (status_code: nat) (detail: string)

text \<open>The dictionary that both list endpoints build for each document.\<close>

record item =
  item_id :: string
  item_message :: string
  item_starts_at :: "datetime option"
  item_expires_at :: datetime
  item_created_by :: string

record create_response =
  created_id :: string
  created_message :: string

record update_response =
  updated_id :: string
  updated :: bool

record delete_response =
  deleted_id :: string
  deleted :: bool

subsection \<open>Python truthiness of an optional string\<close>

text \<open>\<open>not s\<close> holds for \<open>None\<close> and for the empty string.\<close>

definition truthy :: "string option \<Rightarrow> bool" where
  "truthy s = (case s of None \<Rightarrow> False | Some x \<Rightarrow> x \<noteq> [])"

subsection \<open>The store's operations\<close>

text \<open>\<open>teachers_collection.find_one({"_id": username})\<close>\<close>

definition find_one :: "teacher list \<Rightarrow> string \<Rightarrow> teacher option" where
  "find_one ts u = find (\<lambda>t. teacher_id t = u) ts"

text \<open>\<open>announcements_collection.find(query).sort("expires_at", 1)\<close>\<close>

definition find_sort ::
  "('oid announcement \<Rightarrow> bool) \<Rightarrow> 'oid announcement list \<Rightarrow> 'oid announcement list" where
  "find_sort query docs = sort_key expires_at (filter query docs)"

text \<open>
  \<open>insert_one(doc)\<close>: the document is stored under the identifier the driver
  generated for it, \<open>new_id\<close>, which is the \<open>inserted_id\<close> of the result.
\<close>

definition insert_one ::
  "'oid announcement list \<Rightarrow> 'oid announcement \<Rightarrow> 'oid \<times> 'oid announcement list" where
  "insert_one docs doc = (doc_id doc, docs @ [doc])"

text \<open>
  The \<open>update\<close> dictionary of \<open>update_announcement\<close>: a key that is not set is
  \<open>None\<close>; \<open>update["starts_at"] = None\<close> is \<open>Some None\<close>.
\<close>

record update_doc =
  set_message :: "string option"
  set_expires_at :: "datetime option"
  set_starts_at :: "datetime option option"

definition empty_update :: update_doc where
  "empty_update = \<lparr>set_message = None, set_expires_at = None, set_starts_at = None\<rparr>"

text \<open>\<open>{"$set": update}\<close> applied to one document.\<close>

definition apply_set :: "update_doc \<Rightarrow> 'oid announcement \<Rightarrow> 'oid announcement" where
  "apply_set u doc =
     doc\<lparr>message := (case set_message u of None \<Rightarrow> message doc | Some m \<Rightarrow> m),
         expires_at := (case set_expires_at u of None \<Rightarrow> expires_at doc | Some e \<Rightarrow> e),
         starts_at := (case set_starts_at u of None \<Rightarrow> starts_at doc | Some s \<Rightarrow> s)\<rparr>"

text \<open>
  \<open>update_one({"_id": oid}, {"$set": update})\<close>: the first document with that
  \<open>_id\<close> is updated; the result carries \<open>matched_count\<close>.
\<close>

fun update_one ::
  "'oid announcement list \<Rightarrow> 'oid \<Rightarrow> update_doc \<Rightarrow> nat \<times> 'oid announcement list" where
  "update_one [] oid u = (0, [])"
| "update_one (d # ds) oid u =
     (if doc_id d = oid then (1, apply_set u d # ds)
      else (case update_one ds oid u of (n, ds') \<Rightarrow> (n, d # ds')))"

text \<open>
  \<open>delete_one({"_id": oid})\<close>: the first document with that \<open>_id\<close> is removed;
  the result carries \<open>deleted_count\<close>.
\<close>

fun delete_one :: "'oid announcement list \<Rightarrow> 'oid \<Rightarrow> nat \<times> 'oid announcement list" where
  "delete_one [] oid = (0, [])"
| "delete_one (d # ds) oid =
     (if doc_id d = oid then (1, ds)
      else (case delete_one ds oid of (n, ds') \<Rightarrow> (n, d # ds')))"

subsection \<open>The authorization gate\<close>

definition require_teacher :: "teacher list \<Rightarrow> string option \<Rightarrow> http_error + teacher" where
  "require_teacher ts username_p =
     (if \<not> truthy username_p
      then Inl (HTTPException 401 ''Authentication required for this action'')
      else (case find_one ts (the username_p) of
              None \<Rightarrow> Inl (HTTPException 401 ''Invalid teacher credentials'')
            | Some teacher \<Rightarrow> Inr teacher))"

subsection \<open>The list endpoints\<close>

text \<open>
  The query of \<open>get_active_announcements\<close>: \<open>expires_at > now\<close> and one of
  \<open>starts_at <= now\<close>, \<open>starts_at\<close> null, \<open>starts_at\<close> missing (the last two are
  both \<open>None\<close> here).
\<close>

definition active_query :: "datetime \<Rightarrow> 'oid announcement \<Rightarrow> bool" where
  "active_query now doc =
     (now < expires_at doc \<and>
      ((case starts_at doc of None \<Rightarrow> False | Some s \<Rightarrow> s \<le> now)
       \<or> starts_at doc = None
       \<or> starts_at doc = None))"

definition to_item :: "('oid \<Rightarrow> string) \<Rightarrow> 'oid announcement \<Rightarrow> item" where
  "to_item str doc =
     \<lparr>item_id = str (doc_id doc),
      item_message = message doc,
      item_starts_at = starts_at doc,
      item_expires_at = expires_at doc,
      item_created_by = created_by doc\<rparr>"

text \<open>\<open>str\<close> prints an \<open>ObjectId\<close>; \<open>now\<close> is what \<open>datetime.utcnow()\<close> returns.\<close>

definition get_active_announcements ::
  "('oid \<Rightarrow> string) \<Rightarrow> datetime \<Rightarrow> 'oid database \<Rightarrow> item list" where
  "get_active_announcements str now db =
     map (to_item str) (find_sort (active_query now) (announcements_collection db))"

definition get_all_announcements ::
  "('oid \<Rightarrow> string) \<Rightarrow> 'oid database \<Rightarrow> string option \<Rightarrow> http_error + item list" where
  "get_all_announcements str db teacher_username =
     (case require_teacher (teachers_collection db) teacher_username of
        Inl e \<Rightarrow> Inl e
      | Inr _ \<Rightarrow> Inr (map (to_item str) (find_sort (\<lambda>_. True) (announcements_collection db))))"

subsection \<open>Create\<close>

text \<open>
  \<open>fromisoformat\<close> stands for \<open>datetime.fromisoformat\<close>: \<open>None\<close> where it raises.
  \<open>message\<close> and \<open>expires_at\<close> are declared \<open>str\<close>; \<open>None\<close> is admitted here, and
  \<open>not message\<close> covers it as it covers the empty string.
\<close>

definition create_announcement ::
  "(string \<Rightarrow> datetime option) \<Rightarrow> ('oid \<Rightarrow> string) \<Rightarrow> datetime \<Rightarrow> 'oid \<Rightarrow> 'oid database \<Rightarrow>
   string option \<Rightarrow> string option \<Rightarrow> string option \<Rightarrow> string option \<Rightarrow>
   http_error + create_response \<times> 'oid database" where
  "create_announcement fromisoformat str now new_id db message_p expires_at_p starts_at_p
       teacher_username =
     (case require_teacher (teachers_collection db) teacher_username of
        Inl e \<Rightarrow> Inl e
      | Inr teacher \<Rightarrow>
          if \<not> truthy message_p \<or> \<not> truthy expires_at_p
          then Inl (HTTPException 400 ''Message and expires_at are required'')
          else (case fromisoformat (the expires_at_p) of
             None \<Rightarrow> Inl (HTTPException 400
               ''Invalid expires_at format. Use ISO datetime format (e.g. YYYY-MM-DDTHH:MM)'')
           | Some expires_dt \<Rightarrow>
               if truthy starts_at_p \<and> fromisoformat (the starts_at_p) = None
               then Inl (HTTPException 400
                 ''Invalid starts_at format. Use ISO datetime format (e.g. YYYY-MM-DDTHH:MM)'')
               else
                 (let starts_dt = (if truthy starts_at_p then fromisoformat (the starts_at_p)
                                   else None);
                      doc = \<lparr>doc_id = new_id,
                             message = the message_p,
                             starts_at = starts_dt,
                             expires_at = expires_dt,
                             created_by = (case username teacher of
                                             Some n \<Rightarrow> n | None \<Rightarrow> teacher_id teacher),
                             created_at = now\<rparr>;
                      (inserted_id, docs') = insert_one (announcements_collection db) doc
                  in Inr (\<lparr>created_id = str inserted_id, created_message = the message_p\<rparr>,
                          db\<lparr>announcements_collection := docs'\<rparr>))))"

subsection \<open>Update and delete\<close>

text \<open>\<open>ObjectId\<close> parses an identifier: \<open>None\<close> where \<open>ObjectId(ann_id)\<close> raises.\<close>

definition update_announcement ::
  "(string \<Rightarrow> datetime option) \<Rightarrow> (string \<Rightarrow> 'oid option) \<Rightarrow> 'oid database \<Rightarrow>
   string \<Rightarrow> string option \<Rightarrow> string option \<Rightarrow> string option \<Rightarrow> string option \<Rightarrow>
   http_error + update_response \<times> 'oid database" where
  "update_announcement fromisoformat ObjectId db ann_id message_p expires_at_p starts_at_p
       teacher_username =
     (case require_teacher (teachers_collection db) teacher_username of
        Inl e \<Rightarrow> Inl e
      | Inr _ \<Rightarrow>
         (case ObjectId ann_id of
            None \<Rightarrow> Inl (HTTPException 400 ''Invalid announcement id'')
          | Some oid \<Rightarrow>
             (let u1 = (case message_p of None \<Rightarrow> empty_update
                        | Some m \<Rightarrow> empty_update\<lparr>set_message := Some m\<rparr>)
              in if expires_at_p \<noteq> None \<and> fromisoformat (the expires_at_p) = None
                 then Inl (HTTPException 400 ''Invalid expires_at format'')
                 else
                  (let u2 = (case expires_at_p of None \<Rightarrow> u1
                             | Some e \<Rightarrow> u1\<lparr>set_expires_at := fromisoformat e\<rparr>)
                   in if starts_at_p \<noteq> None \<and> starts_at_p \<noteq> Some [] \<and>
                         fromisoformat (the starts_at_p) = None
                      then Inl (HTTPException 400 ''Invalid starts_at format'')
                      else
                       (let upd = (case starts_at_p of None \<Rightarrow> u2
                                  | Some s \<Rightarrow>
                                      if s = [] then u2\<lparr>set_starts_at := Some None\<rparr>
                                      else u2\<lparr>set_starts_at := Some (fromisoformat s)\<rparr>)
                        in if upd = empty_update
                           then Inl (HTTPException 400 ''No fields to update'')
                           else
                            (case update_one (announcements_collection db) oid upd of
                               (matched_count, docs') \<Rightarrow>
                                 if matched_count = 0
                                 then Inl (HTTPException 404 ''Announcement not found'')
                                 else Inr (\<lparr>updated_id = ann_id, updated = True\<rparr>,
                                           db\<lparr>announcements_collection := docs'\<rparr>)))))))"

definition delete_announcement ::
  "(string \<Rightarrow> 'oid option) \<Rightarrow> 'oid database \<Rightarrow> string \<Rightarrow> string option \<Rightarrow>
   http_error + delete_response \<times> 'oid database" where
  "delete_announcement ObjectId db ann_id teacher_username =
     (case require_teacher (teachers_collection db) teacher_username of
        Inl e \<Rightarrow> Inl e
      | Inr _ \<Rightarrow>
         (case ObjectId ann_id of
            None \<Rightarrow> Inl (HTTPException 400 ''Invalid announcement id'')
          | Some oid \<Rightarrow>
             (case delete_one (announcements_collection db) oid of
                (deleted_count, docs') \<Rightarrow>
                  if deleted_count = 0
                  then Inl (HTTPException 404 ''Announcement not found'')
                  else Inr (\<lparr>deleted_id = ann_id, deleted = True\<rparr>,
                            db\<lparr>announcements_collection := docs'\<rparr>))))"

subsection \<open>Vocabulary of the properties\<close>

text \<open>A call fails with the given status code.\<close>

definition fails_with :: "nat \<Rightarrow> http_error + 'a \<Rightarrow> bool" where
  "fails_with code r = (case r of Inl e \<Rightarrow> status_code e = code | Inr _ \<Rightarrow> False)"

text \<open>
  The caller's teacher identifier is absent, empty, or the \<open>_id\<close> of no teacher
  document.
\<close>

definition no_credential :: "teacher list \<Rightarrow> string option \<Rightarrow> bool" where
  "no_credential ts u =
     (u = None \<or> u = Some [] \<or> (\<exists>n. u = Some n \<and> n \<notin> teacher_id ` set ts))"

subsection \<open>A small concrete installation\<close>

definition ex_fromisoformat :: "string \<Rightarrow> datetime option" where
  "ex_fromisoformat s =
     (if s = ''2099-01-01T00:00'' then Some 4070908800
      else if s = ''2000-01-01T00:00'' then Some 946684800
      else None)"

definition ex_ObjectId :: "string \<Rightarrow> nat option" where
  "ex_ObjectId s =
     (if s = ''00000000000000000000000a'' then Some 10
      else if s = ''00000000000000000000000b'' then Some 11
      else None)"

definition ex_str :: "nat \<Rightarrow> string" where
  "ex_str n =
     (if n = 10 then ''00000000000000000000000a''
      else if n = 11 then ''00000000000000000000000b''
      else ''00000000000000000000000c'')"

definition ex_doc :: "nat announcement" where
  "ex_doc = \<lparr>doc_id = 10, message = ''Exam tomorrow'', starts_at = Some 946684800,
             expires_at = 4070908800, created_by = ''alice'', created_at = 1000\<rparr>"

definition ex_db :: "nat database" where
  "ex_db = \<lparr>announcements_collection = [ex_doc],
            teachers_collection =
              [\<lparr>teacher_id = ''alice'', username = Some ''Alice''\<rparr>,
               \<lparr>teacher_id = ''bob'', username = None\<rparr>]\<rparr>"

section \<open>Properties\<close>

subsection \<open>Auxiliary facts\<close>

lemma fails_with_simps:
  "fails_with c (Inl (HTTPException c' d)) = (c' = c)"
  "fails_with c (Inr x) = False"
  by (simp_all add: fails_with_def)

lemma active_query_iff:
  "active_query now d \<longleftrightarrow>
     now < expires_at d \<and> (starts_at d = None \<or> (\<exists>s. starts_at d = Some s \<and> s \<le> now))"
  by (cases "starts_at d") (auto simp: active_query_def)

lemma mset_find_sort: "mset (find_sort q docs) = filter_mset q (mset docs)"
  by (simp add: find_sort_def)

lemma sorted_find_sort: "sorted (map expires_at (find_sort q docs))"
  by (simp add: find_sort_def)

lemma find_one_None_iff: "find_one ts n = None \<longleftrightarrow> n \<notin> teacher_id ` set ts"
  by (auto simp: find_one_def find_None_iff)

lemma find_one_Some_id: "find_one ts n = Some t \<Longrightarrow> teacher_id t = n \<and> t \<in> set ts"
  by (auto simp: find_one_def find_Some_iff)

lemma require_teacher_cases:
  "(no_credential ts u \<and> (\<exists>d. require_teacher ts u = Inl (HTTPException 401 d))) \<or>
   (\<not> no_credential ts u \<and> (\<exists>n t. u = Some n \<and> n \<noteq> [] \<and> find_one ts n = Some t \<and>
        require_teacher ts u = Inr t))"
proof (cases u)
  case None
  then show ?thesis by (simp add: require_teacher_def truthy_def no_credential_def)
next
  case (Some n)
  show ?thesis
  proof (cases "find_one ts n")
    case None
    then have "n \<notin> teacher_id ` set ts"
      using find_one_None_iff[of ts n] by simp
    with None \<open>u = Some n\<close> show ?thesis
      by (simp add: require_teacher_def truthy_def no_credential_def)
  next
    case (Some t)
    then have "n \<in> teacher_id ` set ts"
      using find_one_None_iff[of ts n] by simp
    with Some \<open>u = Some n\<close> show ?thesis
      by (simp add: require_teacher_def truthy_def no_credential_def)
  qed
qed

lemma auth_failure_propagates:
  assumes "require_teacher (teachers_collection db) u = Inl err"
  shows "get_all_announcements str db u = Inl err"
    and "create_announcement pf str now nid db m e s u = Inl err"
    and "update_announcement pf po db i m e s u = Inl err"
    and "delete_announcement po db i u = Inl err"
  using assms
  by (simp_all add: get_all_announcements_def create_announcement_def
        update_announcement_def delete_announcement_def)

lemma get_all_not_401:
  "require_teacher (teachers_collection db) u = Inr t \<Longrightarrow>
   \<not> fails_with 401 (get_all_announcements str db u)"
  by (simp add: get_all_announcements_def fails_with_simps)

lemma create_not_401:
  "require_teacher (teachers_collection db) u = Inr t \<Longrightarrow>
   \<not> fails_with 401 (create_announcement pf str now nid db m e s u)"
  by (simp add: create_announcement_def fails_with_simps Let_def insert_one_def
           split: option.splits)

lemma update_not_401:
  "require_teacher (teachers_collection db) u = Inr t \<Longrightarrow>
   \<not> fails_with 401 (update_announcement pf po db i m e s u)"
  by (cases "po i"; cases m; cases e; cases s)
     (simp_all add: update_announcement_def fails_with_simps Let_def split: prod.splits)

lemma delete_not_401:
  "require_teacher (teachers_collection db) u = Inr t \<Longrightarrow>
   \<not> fails_with 401 (delete_announcement po db i u)"
  by (simp add: delete_announcement_def fails_with_simps
           split: option.splits prod.splits)

lemma require_teacher_found:
  "n \<noteq> [] \<Longrightarrow> find_one ts n = Some t \<Longrightarrow> require_teacher ts (Some n) = Inr t"
  by (simp add: require_teacher_def truthy_def)

lemma create_announcement_success:
  assumes auth: "n \<noteq> []" "find_one (teachers_collection db) n = Some t"
    and msg: "m \<noteq> []"
    and exp: "e \<noteq> []" "pf e = Some dt"
    and sta: "s = None \<or> s = Some [] \<or> (\<exists>sd. pf (the s) = Some sd)"
  shows "create_announcement pf str now nid db (Some m) (Some e) s (Some n) =
     Inr (\<lparr>created_id = str nid, created_message = m\<rparr>,
          db\<lparr>announcements_collection := announcements_collection db @
             [\<lparr>doc_id = nid, message = m,
               starts_at = (if s = None \<or> s = Some [] then None else pf (the s)),
               expires_at = dt,
               created_by = (case username t of Some x \<Rightarrow> x | None \<Rightarrow> teacher_id t),
               created_at = now\<rparr>]\<rparr>)"
proof -
  have ts: "truthy s \<longleftrightarrow> \<not> (s = None \<or> s = Some [])"
    by (cases s) (simp_all add: truthy_def)
  show ?thesis
    using sta msg exp
    by (cases "username t")
       (auto simp: create_announcement_def require_teacher_found[OF auth] ts truthy_def
          insert_one_def)
qed

lemma create_after_auth:
  "require_teacher (teachers_collection db) u = Inr t \<Longrightarrow>
   create_announcement pf str now nid db m e s u =
     (if \<not> truthy m \<or> \<not> truthy e
      then Inl (HTTPException 400 ''Message and expires_at are required'')
      else (case pf (the e) of
         None \<Rightarrow> Inl (HTTPException 400
           ''Invalid expires_at format. Use ISO datetime format (e.g. YYYY-MM-DDTHH:MM)'')
       | Some expires_dt \<Rightarrow>
           if truthy s \<and> pf (the s) = None
           then Inl (HTTPException 400
             ''Invalid starts_at format. Use ISO datetime format (e.g. YYYY-MM-DDTHH:MM)'')
           else Inr (\<lparr>created_id = str nid, created_message = the m\<rparr>,
                     db\<lparr>announcements_collection := announcements_collection db @
                       [\<lparr>doc_id = nid, message = the m,
                         starts_at = (if truthy s then pf (the s) else None),
                         expires_at = expires_dt,
                         created_by = (case username t of Some x \<Rightarrow> x
                                       | None \<Rightarrow> teacher_id t),
                         created_at = now\<rparr>]\<rparr>)))"
  by (cases "pf (the e)") (simp_all add: create_announcement_def insert_one_def Let_def)

lemma update_one_not_found:
  "oid \<notin> doc_id ` set docs \<Longrightarrow> update_one docs oid u = (0, docs)"
  by (induction docs) auto

lemma update_one_found:
  "oid \<in> doc_id ` set docs \<Longrightarrow>
   \<exists>pre d post. docs = pre @ d # post \<and> doc_id d = oid \<and> oid \<notin> doc_id ` set pre \<and>
      update_one docs oid u = (1, pre @ apply_set u d # post)"
proof (induction docs)
  case Nil
  then show ?case by simp
next
  case (Cons a docs)
  show ?case
  proof (cases "doc_id a = oid")
    case True
    then have "a # docs = [] @ a # docs \<and> doc_id a = oid \<and> oid \<notin> doc_id ` set [] \<and>
        update_one (a # docs) oid u = (1, [] @ apply_set u a # docs)"
      by simp
    then show ?thesis by blast
  next
    case False
    with Cons.prems have "oid \<in> doc_id ` set docs" by auto
    from Cons.IH[OF this] obtain pre d post where
      *: "docs = pre @ d # post" "doc_id d = oid" "oid \<notin> doc_id ` set pre"
         "update_one docs oid u = (1, pre @ apply_set u d # post)"
      by blast
    with False have "a # docs = (a # pre) @ d # post \<and> doc_id d = oid \<and>
        oid \<notin> doc_id ` set (a # pre) \<and>
        update_one (a # docs) oid u = (1, (a # pre) @ apply_set u d # post)"
      by auto
    then show ?thesis by blast
  qed
qed

lemma delete_one_not_found:
  "oid \<notin> doc_id ` set docs \<Longrightarrow> delete_one docs oid = (0, docs)"
  by (induction docs) auto

lemma delete_one_found:
  "oid \<in> doc_id ` set docs \<Longrightarrow>
   \<exists>pre d post. docs = pre @ d # post \<and> doc_id d = oid \<and> oid \<notin> doc_id ` set pre \<and>
      delete_one docs oid = (1, pre @ post)"
proof (induction docs)
  case Nil
  then show ?case by simp
next
  case (Cons a docs)
  show ?case
  proof (cases "doc_id a = oid")
    case True
    then have "a # docs = [] @ a # docs \<and> doc_id a = oid \<and> oid \<notin> doc_id ` set [] \<and>
        delete_one (a # docs) oid = (1, [] @ docs)"
      by simp
    then show ?thesis by blast
  next
    case False
    with Cons.prems have "oid \<in> doc_id ` set docs" by auto
    from Cons.IH[OF this] obtain pre d post where
      *: "docs = pre @ d # post" "doc_id d = oid" "oid \<notin> doc_id ` set pre"
         "delete_one docs oid = (1, pre @ post)"
      by blast
    with False have "a # docs = (a # pre) @ d # post \<and> doc_id d = oid \<and>
        oid \<notin> doc_id ` set (a # pre) \<and>
        delete_one (a # docs) oid = (1, (a # pre) @ post)"
      by auto
    then show ?thesis by blast
  qed
qed

lemma require_teacher_valid:
  "\<not> no_credential ts u \<Longrightarrow> \<exists>t. require_teacher ts u = Inr t"
  using require_teacher_cases[of ts u] by blast

lemma update_after_auth:
  assumes "require_teacher (teachers_collection db) u = Inr t" "po i = Some oid"
  shows "update_announcement pf po db i m e s u =
     (if \<exists>x. e = Some x \<and> pf x = None
      then Inl (HTTPException 400 ''Invalid expires_at format'')
      else if \<exists>x. s = Some x \<and> x \<noteq> [] \<and> pf x = None
      then Inl (HTTPException 400 ''Invalid starts_at format'')
      else if m = None \<and> e = None \<and> s = None
      then Inl (HTTPException 400 ''No fields to update'')
      else (case update_one (announcements_collection db) oid
                  \<lparr>set_message = m,
                   set_expires_at = (case e of None \<Rightarrow> None | Some x \<Rightarrow> pf x),
                   set_starts_at = (case s of None \<Rightarrow> None
                                    | Some x \<Rightarrow> if x = [] then Some None else Some (pf x))\<rparr> of
              (matched_count, docs') \<Rightarrow>
                if matched_count = 0
                then Inl (HTTPException 404 ''Announcement not found'')
                else Inr (\<lparr>updated_id = i, updated = True\<rparr>,
                          db\<lparr>announcements_collection := docs'\<rparr>)))"
  using assms
  by (cases m; cases e; cases s)
     (auto simp: update_announcement_def Let_def empty_update_def)

lemma update_success_auth:
  assumes "update_announcement pf po db i m e s u = Inr r"
  shows "\<exists>t oid. require_teacher (teachers_collection db) u = Inr t \<and> po i = Some oid"
proof (cases "require_teacher (teachers_collection db) u")
  case (Inl err)
  from auth_failure_propagates(3)[OF this] assms show ?thesis by simp
next
  case (Inr t)
  with assms show ?thesis
    by (cases "po i") (simp_all add: update_announcement_def)
qed

lemma delete_after_auth:
  assumes "require_teacher (teachers_collection db) u = Inr t" "po i = Some oid"
  shows "delete_announcement po db i u =
     (case delete_one (announcements_collection db) oid of
        (deleted_count, docs') \<Rightarrow>
          if deleted_count = 0
          then Inl (HTTPException 404 ''Announcement not found'')
          else Inr (\<lparr>deleted_id = i, deleted = True\<rparr>,
                    db\<lparr>announcements_collection := docs'\<rparr>))"
  using assms by (simp add: delete_announcement_def)

lemma doc_id_apply_set: "doc_id (apply_set u d) = doc_id d"
  by (simp add: apply_set_def)

lemma set_find_sort_all: "set (find_sort (\<lambda>_. True) docs) = set docs"
  by (simp add: find_sort_def)

lemma get_all_after_auth:
  "require_teacher (teachers_collection db) u = Inr t \<Longrightarrow>
   get_all_announcements str db u =
     Inr (map (to_item str) (find_sort (\<lambda>_. True) (announcements_collection db)))"
  by (simp add: get_all_announcements_def)

text \<open>Facts of the concrete installation.\<close>

lemma ex_facts:
  "\<not> no_credential (teachers_collection ex_db) (Some ''alice'')"
  "ex_ObjectId ''00000000000000000000000a'' = Some 10"
  "ex_ObjectId ''00000000000000000000000b'' = Some 11"
  "10 \<in> doc_id ` set (announcements_collection ex_db)"
  "11 \<notin> doc_id ` set (announcements_collection ex_db)"
  "distinct (map doc_id (announcements_collection ex_db))"
  "inj_on ex_str (doc_id ` set (announcements_collection ex_db))"
  by (simp_all add: no_credential_def ex_db_def ex_ObjectId_def ex_doc_def)

subsection \<open>Listing the active announcements\<close>

text \<open>
  Claim C1. Whatever the announcement store holds and whatever the current time is,
  \<open>get_active_announcements\<close> returns the stored announcements whose \<open>expires_at\<close>
  is strictly later than the current time and whose \<open>starts_at\<close> is absent or not
  later than the current time, each of them exactly as often as it is stored, in
  ascending order of \<open>expires_at\<close>, each one as an item with the fields \<open>id\<close> (the
  printed identifier), \<open>message\<close>, \<open>starts_at\<close>, \<open>expires_at\<close> and
  \<open>created_by\<close> of the document.
\<close>

theorem get_active_announcements_spec:
  "\<exists>ds. mset ds =
          filter_mset (\<lambda>d. now < expires_at d \<and>
                            (starts_at d = None \<or> (\<exists>s. starts_at d = Some s \<and> s \<le> now)))
            (mset (announcements_collection db)) \<and>
        sorted (map expires_at ds) \<and>
        get_active_announcements str now db =
          map (\<lambda>d. \<lparr>item_id = str (doc_id d), item_message = message d,
                     item_starts_at = starts_at d, item_expires_at = expires_at d,
                     item_created_by = created_by d\<rparr>) ds"
proof (intro exI conjI)
  let ?ds = "find_sort (active_query now) (announcements_collection db)"
  show "mset ?ds =
          filter_mset (\<lambda>d. now < expires_at d \<and>
                            (starts_at d = None \<or> (\<exists>s. starts_at d = Some s \<and> s \<le> now)))
            (mset (announcements_collection db))"
    unfolding mset_find_sort by (rule filter_mset_cong) (simp_all add: active_query_iff)
  show "sorted (map expires_at ?ds)"
    by (rule sorted_find_sort)
  show "get_active_announcements str now db =
          map (\<lambda>d. \<lparr>item_id = str (doc_id d), item_message = message d,
                     item_starts_at = starts_at d, item_expires_at = expires_at d,
                     item_created_by = created_by d\<rparr>) ?ds"
    by (simp add: get_active_announcements_def to_item_def)
qed

subsection \<open>The authorization gate\<close>

text \<open>
  Claim C2. Each of the four privileged operations (list-all, create, update, delete)
  fails with status 401 exactly when the teacher identifier is absent, is the empty
  string, or is the identifier of no teacher document; the two cases carry the same
  status code.
\<close>

theorem unauthenticated_iff:
  "(fails_with 401 (get_all_announcements str db u) \<longleftrightarrow>
      no_credential (teachers_collection db) u) \<and>
   (fails_with 401 (create_announcement pf str now nid db m e s u) \<longleftrightarrow>
      no_credential (teachers_collection db) u) \<and>
   (fails_with 401 (update_announcement pf po db i m' e' s' u) \<longleftrightarrow>
      no_credential (teachers_collection db) u) \<and>
   (fails_with 401 (delete_announcement po db i u) \<longleftrightarrow>
      no_credential (teachers_collection db) u)"
proof -
  consider d where "no_credential (teachers_collection db) u"
      "require_teacher (teachers_collection db) u = Inl (HTTPException 401 d)"
    | t where "\<not> no_credential (teachers_collection db) u"
      "require_teacher (teachers_collection db) u = Inr t"
    using require_teacher_cases[of "teachers_collection db" u] by blast
  then show ?thesis
  proof cases
    case 1
    then show ?thesis
      by (simp add: auth_failure_propagates fails_with_simps)
  next
    case 2
    then show ?thesis
      by (simp add: get_all_not_401 create_not_401 update_not_401 delete_not_401)
  qed
qed

text \<open>
  The gate at work in the concrete installation: \<open>mallory\<close> is the \<open>_id\<close> of no
  teacher document, and all four operations answer 401.
\<close>

theorem unauthenticated_iff_witness:
  "no_credential (teachers_collection ex_db) (Some ''mallory'') \<and>
   fails_with 401 (get_all_announcements ex_str ex_db (Some ''mallory'')) \<and>
   fails_with 401 (create_announcement ex_fromisoformat ex_str 5000 11 ex_db
      (Some ''Exam tomorrow'') (Some ''2099-01-01T00:00'') None (Some ''mallory'')) \<and>
   fails_with 401 (update_announcement ex_fromisoformat ex_ObjectId ex_db
      ''00000000000000000000000a'' (Some ''Moved'') None None (Some ''mallory'')) \<and>
   fails_with 401 (delete_announcement ex_ObjectId ex_db
      ''00000000000000000000000a'' (Some ''mallory''))"
proof -
  have nc: "no_credential (teachers_collection ex_db) (Some ''mallory'')"
    by (simp add: no_credential_def ex_db_def)
  show ?thesis
    using nc unauthenticated_iff[of ex_str ex_db "Some ''mallory''" ex_fromisoformat 5000 11
        "Some ''Exam tomorrow''" "Some ''2099-01-01T00:00''" None ex_ObjectId
        "''00000000000000000000000a''" "Some ''Moved''" None None]
    by simp
qed

subsection \<open>Creating an announcement\<close>

text \<open>
  Claim C3, as amended. A create call by a teacher whose identifier is non-empty and
  found in the teacher store, with a non-empty message, an \<open>expires_at\<close> that parses,
  and a \<open>starts_at\<close> that is absent, empty or parses, appends one document to the
  store: its \<open>created_by\<close> is the teacher's \<open>username\<close>, or the teacher's \<open>_id\<close>
  when the teacher document has no \<open>username\<close> field, its \<open>created_at\<close> is the
  current server time, and the call returns the printed new identifier and the message.
  (\<open>datetime.fromisoformat\<close> rejects the empty string: the hypothesis \<open>pf [] = None\<close>.)
\<close>

theorem create_persists_amended:
  assumes "n \<noteq> []" "find_one (teachers_collection db) n = Some t"
    and "m \<noteq> []"
    and "pf [] = None" "pf e = Some dt"
    and "s = None \<or> s = Some [] \<or> (\<exists>sd. pf (the s) = Some sd)"
  shows "create_announcement pf str now nid db (Some m) (Some e) s (Some n) =
     Inr (\<lparr>created_id = str nid, created_message = m\<rparr>,
          db\<lparr>announcements_collection := announcements_collection db @
             [\<lparr>doc_id = nid, message = m,
               starts_at = (if s = None \<or> s = Some [] then None else pf (the s)),
               expires_at = dt,
               created_by = (case username t of Some x \<Rightarrow> x | None \<Rightarrow> teacher_id t),
               created_at = now\<rparr>]\<rparr>)"
proof -
  from assms(4,5) have "e \<noteq> []" by auto
  then show ?thesis
    by (rule create_announcement_success[OF assms(1,2,3) _ assms(5,6)])
qed

text \<open>
  The same call in the concrete installation, by the teacher \<open>bob\<close>, whose document
  has no \<open>username\<close>.
\<close>

theorem create_persists_amended_witness:
  "create_announcement ex_fromisoformat ex_str 5000 11 ex_db
     (Some ''Exam tomorrow'') (Some ''2099-01-01T00:00'') None (Some ''bob'') =
   Inr (\<lparr>created_id = ''00000000000000000000000b'', created_message = ''Exam tomorrow''\<rparr>,
        ex_db\<lparr>announcements_collection := [ex_doc,
          \<lparr>doc_id = 11, message = ''Exam tomorrow'', starts_at = None,
           expires_at = 4070908800, created_by = ''bob'', created_at = 5000\<rparr>]\<rparr>)"
proof -
  have f: "find_one (teachers_collection ex_db) ''bob'' =
      Some \<lparr>teacher_id = ''bob'', username = None\<rparr>"
    by (simp add: find_one_def ex_db_def)
  have p: "ex_fromisoformat [] = None" "ex_fromisoformat ''2099-01-01T00:00'' = Some 4070908800"
    by (simp_all add: ex_fromisoformat_def)
  show ?thesis
    using create_persists_amended[OF _ f _ p, of "''Exam tomorrow''" None ex_str 5000 11]
    by (simp add: ex_str_def ex_db_def)
qed

text \<open>
  Claim C3 as it is written asks nothing of \<open>starts_at\<close>. With a valid teacher, a
  non-empty message and an \<open>expires_at\<close> that parses, a \<open>starts_at\<close> that does not
  parse makes the call fail with status 400, and nothing is stored.
\<close>

theorem create_persists_counterexample:
  "find_one (teachers_collection ex_db) ''alice'' =
      Some \<lparr>teacher_id = ''alice'', username = Some ''Alice''\<rparr> \<and>
   ex_fromisoformat ''2099-01-01T00:00'' = Some 4070908800 \<and>
   create_announcement ex_fromisoformat ex_str 5000 11 ex_db
     (Some ''Exam tomorrow'') (Some ''2099-01-01T00:00'') (Some ''not-a-date'') (Some ''alice'') =
   Inl (HTTPException 400
     ''Invalid starts_at format. Use ISO datetime format (e.g. YYYY-MM-DDTHH:MM)'')"
  by (simp add: create_announcement_def require_teacher_def truthy_def find_one_def ex_db_def
        ex_fromisoformat_def)

text \<open>
  Claim C5, as amended. A create call with a valid teacher credential fails with
  status 400 when \<open>message\<close> or \<open>expires_at\<close> is missing or empty, when
  \<open>expires_at\<close> does not parse, and when a non-empty \<open>starts_at\<close> does not parse.
\<close>

theorem create_bad_request_amended:
  assumes "\<not> no_credential (teachers_collection db) u"
    and "m = None \<or> m = Some [] \<or> e = None \<or> e = Some [] \<or>
         (\<exists>x. e = Some x \<and> pf x = None) \<or>
         (\<exists>x. s = Some x \<and> x \<noteq> [] \<and> pf x = None)"
  shows "fails_with 400 (create_announcement pf str now nid db m e s u)"
proof -
  obtain t where t: "require_teacher (teachers_collection db) u = Inr t"
    using require_teacher_cases[of "teachers_collection db" u] assms(1) by blast
  note eq = create_after_auth[OF t, of pf str now nid m e s]
  have tm: "truthy m \<longleftrightarrow> \<not> (m = None \<or> m = Some [])"
    by (cases m) (simp_all add: truthy_def)
  have te: "truthy e \<longleftrightarrow> \<not> (e = None \<or> e = Some [])"
    by (cases e) (simp_all add: truthy_def)
  consider (req) "\<not> truthy m \<or> \<not> truthy e"
    | (exp) "truthy m" "truthy e" "pf (the e) = None"
    | (sta) dt where "truthy m" "truthy e" "pf (the e) = Some dt" "truthy s" "pf (the s) = None"
  proof -
    from assms(2) show thesis
    proof (elim disjE exE conjE)
      assume "m = None" with tm req show thesis by simp
    next
      assume "m = Some []" with tm req show thesis by simp
    next
      assume "e = None" with te req show thesis by simp
    next
      assume "e = Some []" with te req show thesis by simp
    next
      fix x assume "e = Some x" "pf x = None"
      then show thesis using req exp by (cases "truthy m \<and> truthy e") auto
    next
      fix x assume x: "s = Some x" "x \<noteq> []" "pf x = None"
      then have "truthy s" "pf (the s) = None" by (simp_all add: truthy_def)
      then show thesis using req exp sta
        by (cases "truthy m \<and> truthy e"; cases "pf (the e)") auto
    qed
  qed
  then show ?thesis
  proof cases
    case req
    then show ?thesis unfolding eq by (auto simp: fails_with_simps)
  next
    case exp
    then show ?thesis unfolding eq by (simp add: fails_with_simps)
  next
    case sta
    then show ?thesis unfolding eq by (simp add: fails_with_simps)
  qed
qed

text \<open>
  Three such calls in the concrete installation: an \<open>expires_at\<close> that does not
  parse, an empty message, a \<open>starts_at\<close> that does not parse.
\<close>

theorem create_bad_request_amended_witness:
  "fails_with 400
      (create_announcement ex_fromisoformat ex_str 5000 11 ex_db
         (Some ''Exam tomorrow'') (Some ''not-a-date'') None (Some ''alice'')) \<and>
   fails_with 400
      (create_announcement ex_fromisoformat ex_str 5000 11 ex_db
         (Some []) (Some ''2099-01-01T00:00'') None (Some ''alice'')) \<and>
   fails_with 400
      (create_announcement ex_fromisoformat ex_str 5000 11 ex_db
         (Some ''Exam tomorrow'') (Some ''2099-01-01T00:00'') (Some ''tomorrow'') (Some ''alice''))"
proof -
  have c: "\<not> no_credential (teachers_collection ex_db) (Some ''alice'')"
    by (simp add: no_credential_def ex_db_def)
  have p: "ex_fromisoformat ''not-a-date'' = None" "ex_fromisoformat ''tomorrow'' = None"
    by (simp_all add: ex_fromisoformat_def)
  show ?thesis
    using create_bad_request_amended[OF c, of "Some ''Exam tomorrow''" "Some ''not-a-date''"
            ex_fromisoformat None ex_str 5000 11]
          create_bad_request_amended[OF c, of "Some []" "Some ''2099-01-01T00:00''"
            ex_fromisoformat None ex_str 5000 11]
          create_bad_request_amended[OF c, of "Some ''Exam tomorrow''" "Some ''2099-01-01T00:00''"
            ex_fromisoformat "Some ''tomorrow''" ex_str 5000 11]
          p
    by simp
qed

text \<open>
  Claim C5 as it is written covers every supplied \<open>starts_at\<close> that does not parse.
  The empty string does not parse, and the call that supplies it succeeds.
\<close>

theorem create_bad_request_counterexample:
  "\<not> no_credential (teachers_collection ex_db) (Some ''alice'') \<and>
   ex_fromisoformat [] = None \<and>
   \<not> fails_with 400
      (create_announcement ex_fromisoformat ex_str 5000 11 ex_db
         (Some ''Exam tomorrow'') (Some ''2099-01-01T00:00'') (Some []) (Some ''alice''))"
  by (simp add: create_announcement_def require_teacher_def truthy_def find_one_def ex_db_def
        ex_fromisoformat_def no_credential_def fails_with_simps insert_one_def)

text \<open>
  Claim C10. A create call with a valid teacher credential, a non-empty message, an
  \<open>expires_at\<close> that parses and the empty string as \<open>starts_at\<close> succeeds, and the
  stored document has no \<open>starts_at\<close>.
\<close>

theorem create_empty_starts_at:
  assumes "n \<noteq> []" "find_one (teachers_collection db) n = Some t"
    and "m \<noteq> []"
    and "pf [] = None" "pf e = Some dt"
  shows "create_announcement pf str now nid db (Some m) (Some e) (Some []) (Some n) =
     Inr (\<lparr>created_id = str nid, created_message = m\<rparr>,
          db\<lparr>announcements_collection := announcements_collection db @
             [\<lparr>doc_id = nid, message = m, starts_at = None, expires_at = dt,
               created_by = (case username t of Some x \<Rightarrow> x | None \<Rightarrow> teacher_id t),
               created_at = now\<rparr>]\<rparr>)"
proof -
  from assms(4,5) have "e \<noteq> []" by auto
  then show ?thesis
    using create_announcement_success[of n db t m e pf dt "Some []" str now nid] assms
    by simp
qed

text \<open>The call in the concrete installation, by the teacher \<open>alice\<close>.\<close>

theorem create_empty_starts_at_witness:
  "create_announcement ex_fromisoformat ex_str 5000 11 ex_db
     (Some ''Exam tomorrow'') (Some ''2099-01-01T00:00'') (Some []) (Some ''alice'') =
   Inr (\<lparr>created_id = ''00000000000000000000000b'', created_message = ''Exam tomorrow''\<rparr>,
        ex_db\<lparr>announcements_collection := [ex_doc,
          \<lparr>doc_id = 11, message = ''Exam tomorrow'', starts_at = None,
           expires_at = 4070908800, created_by = ''Alice'', created_at = 5000\<rparr>]\<rparr>)"
proof -
  have f: "find_one (teachers_collection ex_db) ''alice'' =
      Some \<lparr>teacher_id = ''alice'', username = Some ''Alice''\<rparr>"
    by (simp add: find_one_def ex_db_def)
  have p: "ex_fromisoformat [] = None" "ex_fromisoformat ''2099-01-01T00:00'' = Some 4070908800"
    by (simp_all add: ex_fromisoformat_def)
  show ?thesis
    using create_empty_starts_at[OF _ f _ p, of "''Exam tomorrow''" ex_str 5000 11]
    by (simp add: ex_str_def ex_db_def)
qed

subsection \<open>Updating an announcement\<close>

text \<open>
  Claim C4. When an update succeeds, the result is \<open>{id, updated: true}\<close> with the
  identifier the caller gave, the teacher store is unchanged, and the announcement store
  differs from the old one in one document only, the first one with the given
  identifier: there \<open>message\<close>, \<open>expires_at\<close> and \<open>starts_at\<close> take the supplied
  values (an empty \<open>starts_at\<close> clears the field), each field that was not supplied
  keeps its value, and \<open>_id\<close>, \<open>created_by\<close> and \<open>created_at\<close> keep theirs. Every
  other document stays as it was, in its place.
\<close>

theorem update_frame:
  assumes "update_announcement pf po db i m e s u = Inr (resp, db')"
  shows "resp = \<lparr>updated_id = i, updated = True\<rparr> \<and>
         teachers_collection db' = teachers_collection db \<and>
         (\<exists>oid pre d post.
            po i = Some oid \<and>
            announcements_collection db = pre @ d # post \<and>
            doc_id d = oid \<and> oid \<notin> doc_id ` set pre \<and>
            announcements_collection db' =
              pre @ d\<lparr>message := (case m of None \<Rightarrow> message d | Some x \<Rightarrow> x),
                      expires_at := (case e of None \<Rightarrow> expires_at d | Some x \<Rightarrow> the (pf x)),
                      starts_at := (case s of None \<Rightarrow> starts_at d
                                    | Some x \<Rightarrow> if x = [] then None else pf x)\<rparr> # post)"
proof -
  obtain t oid where t: "require_teacher (teachers_collection db) u = Inr t"
    and oid: "po i = Some oid"
    using update_success_auth[OF assms] by blast
  let ?upd = "\<lparr>set_message = m,
               set_expires_at = (case e of None \<Rightarrow> None | Some x \<Rightarrow> pf x),
               set_starts_at = (case s of None \<Rightarrow> None
                                | Some x \<Rightarrow> if x = [] then Some None else Some (pf x))\<rparr>"
  note eq = update_after_auth[where po = po and i = i and pf = pf and m = m and e = e and s = s,
      OF t oid]
  obtain n docs' where u1: "update_one (announcements_collection db) oid ?upd = (n, docs')"
    by (cases "update_one (announcements_collection db) oid ?upd")
  from assms have a: "\<not> (\<exists>x. e = Some x \<and> pf x = None)"
    unfolding eq by (auto split: if_splits)
  from assms a have n: "n \<noteq> 0" and r: "resp = \<lparr>updated_id = i, updated = True\<rparr>"
    and d: "db' = db\<lparr>announcements_collection := docs'\<rparr>"
    unfolding eq u1 by (auto split: if_splits)
  have "oid \<in> doc_id ` set (announcements_collection db)"
    using update_one_not_found[of oid "announcements_collection db" ?upd] u1 n by auto
  from update_one_found[OF this, of ?upd] u1
  obtain pre d0 post where p: "announcements_collection db = pre @ d0 # post"
      "doc_id d0 = oid" "oid \<notin> doc_id ` set pre" "docs' = pre @ apply_set ?upd d0 # post"
    by auto
  have "apply_set ?upd d0 =
      d0\<lparr>message := (case m of None \<Rightarrow> message d0 | Some x \<Rightarrow> x),
          expires_at := (case e of None \<Rightarrow> expires_at d0 | Some x \<Rightarrow> the (pf x)),
          starts_at := (case s of None \<Rightarrow> starts_at d0
                        | Some x \<Rightarrow> if x = [] then None else pf x)\<rparr>"
    using a by (cases e; cases s) (auto simp: apply_set_def)
  with p d r oid show ?thesis by auto
qed

text \<open>A successful update of the message alone, in the concrete installation.\<close>

theorem update_frame_witness:
  "update_announcement ex_fromisoformat ex_ObjectId ex_db
      ''00000000000000000000000a'' (Some ''Moved to Friday'') None None (Some ''alice'') =
   Inr (\<lparr>updated_id = ''00000000000000000000000a'', updated = True\<rparr>,
        ex_db\<lparr>announcements_collection := [ex_doc\<lparr>message := ''Moved to Friday''\<rparr>]\<rparr>) \<and>
   (\<exists>pre d post.
      announcements_collection ex_db = pre @ d # post \<and> doc_id d = 10 \<and>
      [ex_doc\<lparr>message := ''Moved to Friday''\<rparr>] = pre @ d\<lparr>message := ''Moved to Friday''\<rparr> # post)"
proof -
  have run: "update_announcement ex_fromisoformat ex_ObjectId ex_db
      ''00000000000000000000000a'' (Some ''Moved to Friday'') None None (Some ''alice'') =
    Inr (\<lparr>updated_id = ''00000000000000000000000a'', updated = True\<rparr>,
        ex_db\<lparr>announcements_collection := [ex_doc\<lparr>message := ''Moved to Friday''\<rparr>]\<rparr>)"
    by (simp add: update_announcement_def require_teacher_def truthy_def find_one_def ex_db_def
        ex_ObjectId_def ex_doc_def Let_def empty_update_def apply_set_def)
  from update_frame[OF run] ex_facts(2) run show ?thesis
    by auto
qed

text \<open>
  Claim C6, as amended. In an update call with a valid credential and the well-formed
  identifier of an existing announcement, where an \<open>expires_at\<close> that is supplied
  parses, supplying \<open>starts_at\<close> as the empty string succeeds and leaves the stored
  announcement without \<open>starts_at\<close>; a following list-all shows the announcement, and
  shows it with \<open>starts_at\<close> null. (Identifiers are unique in the store, and two of
  them are not printed alike.)
\<close>

theorem update_clear_starts_at_amended:
  assumes cred: "\<not> no_credential (teachers_collection db) u"
    and oid: "po i = Some oid"
    and ex: "oid \<in> doc_id ` set (announcements_collection db)"
    and dist: "distinct (map doc_id (announcements_collection db))"
    and inj: "inj_on str (doc_id ` set (announcements_collection db))"
    and exp: "\<forall>x. e = Some x \<longrightarrow> pf x \<noteq> None"
  shows "\<exists>db' items.
           update_announcement pf po db i m e (Some []) u =
             Inr (\<lparr>updated_id = i, updated = True\<rparr>, db') \<and>
           (\<exists>d\<in>set (announcements_collection db'). doc_id d = oid) \<and>
           (\<forall>d\<in>set (announcements_collection db'). doc_id d = oid \<longrightarrow> starts_at d = None) \<and>
           get_all_announcements str db' u = Inr items \<and>
           (\<exists>it\<in>set items. item_id it = str oid) \<and>
           (\<forall>it\<in>set items. item_id it = str oid \<longrightarrow> item_starts_at it = None)"
proof -
  obtain t where t: "require_teacher (teachers_collection db) u = Inr t"
    using require_teacher_valid[OF cred] by blast
  let ?upd = "\<lparr>set_message = m,
               set_expires_at = (case e of None \<Rightarrow> None | Some x \<Rightarrow> pf x),
               set_starts_at = Some None\<rparr>"
  let ?docs = "announcements_collection db"
  from update_one_found[OF ex, of ?upd]
  obtain pre d0 post where p: "?docs = pre @ d0 # post"
      "doc_id d0 = oid" "oid \<notin> doc_id ` set pre"
      "update_one ?docs oid ?upd = (1, pre @ apply_set ?upd d0 # post)"
    by blast
  let ?d1 = "apply_set ?upd d0"
  let ?docs' = "pre @ ?d1 # post"
  let ?db' = "db\<lparr>announcements_collection := ?docs'\<rparr>"
  have a: "\<not> (\<exists>x. e = Some x \<and> pf x = None)" using exp by blast
  have run: "update_announcement pf po db i m e (Some []) u =
      Inr (\<lparr>updated_id = i, updated = True\<rparr>, ?db')"
    unfolding update_after_auth[where po = po and i = i and pf = pf and m = m and e = e
        and s = "Some []", OF t oid]
    using a p(4) by simp
  have post: "oid \<notin> doc_id ` set post"
    using dist p(1,2) by auto
  have d1: "doc_id ?d1 = oid" "starts_at ?d1 = None"
    using p(2) by (simp_all add: apply_set_def)
  have only: "d = ?d1" if "d \<in> set ?docs'" "doc_id d = oid" for d
    using that p(3) post by auto
  have stored: "\<forall>d\<in>set ?docs'. doc_id d = oid \<longrightarrow> starts_at d = None"
    using only d1(2) by metis
  have ids: "doc_id ` set ?docs' = doc_id ` set ?docs"
    using p(1,2) d1(1) by auto
  let ?items = "map (to_item str) (find_sort (\<lambda>_. True) ?docs')"
  have t': "require_teacher (teachers_collection ?db') u = Inr t"
    using t by simp
  have rd: "get_all_announcements str ?db' u = Inr ?items"
    using get_all_after_auth[OF t', of str] by simp
  have its: "set ?items = to_item str ` set ?docs'"
    by (simp add: set_find_sort_all)
  have "to_item str ?d1 \<in> set ?items"
    unfolding its by simp
  moreover have "item_id (to_item str ?d1) = str oid"
    using d1(1) by (simp add: to_item_def)
  ultimately have some: "\<exists>it\<in>set ?items. item_id it = str oid" by blast
  have all: "\<forall>it\<in>set ?items. item_id it = str oid \<longrightarrow> item_starts_at it = None"
  proof (intro ballI impI)
    fix it assume "it \<in> set ?items" "item_id it = str oid"
    then obtain d where d: "d \<in> set ?docs'" "it = to_item str d"
      unfolding its by blast
    with \<open>item_id it = str oid\<close> have "str (doc_id d) = str oid"
      by (simp add: to_item_def)
    moreover have "doc_id d \<in> doc_id ` set ?docs" using d(1) ids by blast
    ultimately have "doc_id d = oid"
      using inj ex by (meson inj_onD)
    with stored d(1) have "starts_at d = None" by blast
    with d(2) show "item_starts_at it = None" by (simp add: to_item_def)
  qed
  have "\<exists>d\<in>set (announcements_collection ?db'). doc_id d = oid"
    using d1(1) by auto
  moreover have "\<forall>d\<in>set (announcements_collection ?db'). doc_id d = oid \<longrightarrow> starts_at d = None"
    using stored by simp
  ultimately show ?thesis
    using run rd some all by blast
qed

text \<open>Clearing \<open>starts_at\<close> in the concrete installation, and the read that follows.\<close>

theorem update_clear_starts_at_amended_witness:
  "update_announcement ex_fromisoformat ex_ObjectId ex_db
      ''00000000000000000000000a'' None None (Some []) (Some ''alice'') =
   Inr (\<lparr>updated_id = ''00000000000000000000000a'', updated = True\<rparr>,
        ex_db\<lparr>announcements_collection := [ex_doc\<lparr>starts_at := None\<rparr>]\<rparr>) \<and>
   get_all_announcements ex_str
      (ex_db\<lparr>announcements_collection := [ex_doc\<lparr>starts_at := None\<rparr>]\<rparr>) (Some ''alice'') =
   Inr [\<lparr>item_id = ''00000000000000000000000a'', item_message = ''Exam tomorrow'',
         item_starts_at = None, item_expires_at = 4070908800, item_created_by = ''alice''\<rparr>]"
proof -
  have run: "update_announcement ex_fromisoformat ex_ObjectId ex_db
      ''00000000000000000000000a'' None None (Some []) (Some ''alice'') =
    Inr (\<lparr>updated_id = ''00000000000000000000000a'', updated = True\<rparr>,
        ex_db\<lparr>announcements_collection := [ex_doc\<lparr>starts_at := None\<rparr>]\<rparr>)"
    by (simp add: update_announcement_def require_teacher_def truthy_def find_one_def ex_db_def
        ex_ObjectId_def ex_doc_def Let_def empty_update_def apply_set_def)
  from update_clear_starts_at_amended[where po = ex_ObjectId and pf = ex_fromisoformat
      and i = "''00000000000000000000000a''" and str = ex_str and m = None and e = None,
      OF ex_facts(1,2,4,6,7)]
  obtain db' items where r:
    "update_announcement ex_fromisoformat ex_ObjectId ex_db
      ''00000000000000000000000a'' None None (Some []) (Some ''alice'') =
        Inr (\<lparr>updated_id = ''00000000000000000000000a'', updated = True\<rparr>, db')"
    "get_all_announcements ex_str db' (Some ''alice'') = Inr items"
    "\<forall>it\<in>set items. item_id it = ex_str 10 \<longrightarrow> item_starts_at it = None"
    by auto
  from r(1) run have db': "db' = ex_db\<lparr>announcements_collection := [ex_doc\<lparr>starts_at := None\<rparr>]\<rparr>"
    by simp
  have "get_all_announcements ex_str
      (ex_db\<lparr>announcements_collection := [ex_doc\<lparr>starts_at := None\<rparr>]\<rparr>) (Some ''alice'') =
    Inr [\<lparr>item_id = ''00000000000000000000000a'', item_message = ''Exam tomorrow'',
         item_starts_at = None, item_expires_at = 4070908800, item_created_by = ''alice''\<rparr>]"
    by (simp add: get_all_announcements_def require_teacher_def truthy_def find_one_def
        ex_db_def ex_doc_def find_sort_def to_item_def ex_str_def)
  with run show ?thesis by simp
qed

text \<open>
  Claim C6 as it is written covers every such call. When the call also supplies an
  \<open>expires_at\<close> that does not parse, it fails with status 400 and \<open>starts_at\<close> is
  not cleared.
\<close>

theorem update_clear_starts_at_counterexample:
  "\<not> no_credential (teachers_collection ex_db) (Some ''alice'') \<and>
   ex_ObjectId ''00000000000000000000000a'' = Some 10 \<and>
   10 \<in> doc_id ` set (announcements_collection ex_db) \<and>
   update_announcement ex_fromisoformat ex_ObjectId ex_db
      ''00000000000000000000000a'' None (Some ''not-a-date'') (Some []) (Some ''alice'') =
   Inl (HTTPException 400 ''Invalid expires_at format'')"
  by (simp add: update_announcement_def require_teacher_def truthy_def find_one_def ex_db_def
        ex_ObjectId_def ex_doc_def ex_fromisoformat_def no_credential_def Let_def
        empty_update_def)

text \<open>
  Claim C7. An update call with a valid credential and a well-formed identifier fails
  with status 400 when none of \<open>message\<close>, \<open>expires_at\<close>, \<open>starts_at\<close> is
  supplied, and fails with status 404 when at least one of them is supplied, each
  supplied timestamp parses (or is the empty \<open>starts_at\<close>), and the store has no
  announcement with that identifier.
\<close>

theorem update_bad_request_not_found:
  assumes "\<not> no_credential (teachers_collection db) u" and "po i = Some oid"
  shows "(m = None \<and> e = None \<and> s = None \<longrightarrow>
            fails_with 400 (update_announcement pf po db i m e s u)) \<and>
         ((m \<noteq> None \<or> e \<noteq> None \<or> s \<noteq> None) \<and>
          (\<forall>x. e = Some x \<longrightarrow> pf x \<noteq> None) \<and>
          (\<forall>x. s = Some x \<longrightarrow> x = [] \<or> pf x \<noteq> None) \<and>
          oid \<notin> doc_id ` set (announcements_collection db) \<longrightarrow>
            fails_with 404 (update_announcement pf po db i m e s u))"
proof -
  obtain t where t: "require_teacher (teachers_collection db) u = Inr t"
    using require_teacher_valid[OF assms(1)] by blast
  note eq = update_after_auth[where po = po and i = i and pf = pf and m = m and e = e and s = s,
      OF t assms(2)]
  have "fails_with 400 (update_announcement pf po db i m e s u)"
    if "m = None \<and> e = None \<and> s = None"
    using that unfolding eq by (simp add: fails_with_simps)
  moreover have "fails_with 404 (update_announcement pf po db i m e s u)"
    if "m \<noteq> None \<or> e \<noteq> None \<or> s \<noteq> None"
      and "\<forall>x. e = Some x \<longrightarrow> pf x \<noteq> None"
      and "\<forall>x. s = Some x \<longrightarrow> x = [] \<or> pf x \<noteq> None"
      and "oid \<notin> doc_id ` set (announcements_collection db)"
  proof -
    have a: "\<not> (\<exists>x. e = Some x \<and> pf x = None)" using that(2) by blast
    have b: "\<not> (\<exists>x. s = Some x \<and> x \<noteq> [] \<and> pf x = None)" using that(3) by blast
    have c: "\<not> (m = None \<and> e = None \<and> s = None)" using that(1) by blast
    show ?thesis
      unfolding eq
      by (simp only: a b c if_False update_one_not_found[OF that(4)])
         (simp add: fails_with_simps)
  qed
  ultimately show ?thesis by blast
qed

text \<open>
  Both failures in the concrete installation: no field at all, and an identifier that
  the store does not hold.
\<close>

theorem update_bad_request_not_found_witness:
  "fails_with 400 (update_announcement ex_fromisoformat ex_ObjectId ex_db
      ''00000000000000000000000a'' None None None (Some ''alice'')) \<and>
   fails_with 404 (update_announcement ex_fromisoformat ex_ObjectId ex_db
      ''00000000000000000000000b'' (Some ''Moved'') (Some ''2099-01-01T00:00'') (Some [])
      (Some ''alice''))"
proof -
  have c: "\<not> no_credential (teachers_collection ex_db) (Some ''alice'')"
    by (simp add: no_credential_def ex_db_def)
  have o: "ex_ObjectId ''00000000000000000000000a'' = Some 10"
    "ex_ObjectId ''00000000000000000000000b'' = Some 11"
    by (simp_all add: ex_ObjectId_def)
  have p: "ex_fromisoformat ''2099-01-01T00:00'' \<noteq> None"
    by (simp add: ex_fromisoformat_def)
  have n: "11 \<notin> doc_id ` set (announcements_collection ex_db)"
    by (simp add: ex_db_def ex_doc_def)
  show ?thesis
    using update_bad_request_not_found[where po = ex_ObjectId and pf = ex_fromisoformat
          and i = "''00000000000000000000000a''" and m = None and e = None and s = None,
          OF c o(1)]
      update_bad_request_not_found[where po = ex_ObjectId and pf = ex_fromisoformat
          and i = "''00000000000000000000000b''" and m = "Some ''Moved''"
          and e = "Some ''2099-01-01T00:00''" and s = "Some []", OF c o(2)] p n
    by simp
qed

text \<open>
  Claim C9 does not hold of \<open>update_announcement\<close>. The stored announcement has a
  non-empty message; an update that supplies the empty string as \<open>message\<close> succeeds
  and stores it, because the update tests \<open>message is not None\<close> where the creation
  tests \<open>not message\<close>.
\<close>

theorem update_stores_empty_message:
  "message ex_doc \<noteq> [] \<and>
   update_announcement ex_fromisoformat ex_ObjectId ex_db
      ''00000000000000000000000a'' (Some []) None None (Some ''alice'') =
   Inr (\<lparr>updated_id = ''00000000000000000000000a'', updated = True\<rparr>,
        ex_db\<lparr>announcements_collection := [ex_doc\<lparr>message := []\<rparr>]\<rparr>)"
  by (simp add: update_announcement_def require_teacher_def truthy_def find_one_def ex_db_def
        ex_ObjectId_def ex_doc_def Let_def empty_update_def apply_set_def)

subsection \<open>Deleting an announcement\<close>

text \<open>
  Claim C8. A delete call with a valid credential and a well-formed identifier, on a
  store whose identifiers are unique: when an announcement with the identifier exists,
  the call removes that one document, leaves the others in place and returns
  \<open>{id, deleted: true}\<close>, and the same call on the resulting store fails with status
  404; when none exists, the call fails with status 404.
\<close>

theorem delete_once_twice:
  assumes cred: "\<not> no_credential (teachers_collection db) u"
    and oid: "po i = Some oid"
    and dist: "distinct (map doc_id (announcements_collection db))"
  shows "(oid \<in> doc_id ` set (announcements_collection db) \<longrightarrow>
           (\<exists>pre d post.
              announcements_collection db = pre @ d # post \<and> doc_id d = oid \<and>
              delete_announcement po db i u =
                Inr (\<lparr>deleted_id = i, deleted = True\<rparr>,
                     db\<lparr>announcements_collection := pre @ post\<rparr>) \<and>
              fails_with 404
                (delete_announcement po (db\<lparr>announcements_collection := pre @ post\<rparr>) i u))) \<and>
         (oid \<notin> doc_id ` set (announcements_collection db) \<longrightarrow>
           fails_with 404 (delete_announcement po db i u))"
proof -
  obtain t where t: "require_teacher (teachers_collection db) u = Inr t"
    using require_teacher_valid[OF cred] by blast
  have absent: "fails_with 404 (delete_announcement po db1 i u)"
    if "teachers_collection db1 = teachers_collection db"
       "oid \<notin> doc_id ` set (announcements_collection db1)" for db1 :: "'a database"
  proof -
    have t1: "require_teacher (teachers_collection db1) u = Inr t"
      using t that(1) by simp
    show ?thesis
      unfolding delete_after_auth[where po = po and i = i, OF t1 oid]
      by (simp add: delete_one_not_found[OF that(2)] fails_with_simps)
  qed
  have "\<exists>pre d post.
      announcements_collection db = pre @ d # post \<and> doc_id d = oid \<and>
      delete_announcement po db i u =
        Inr (\<lparr>deleted_id = i, deleted = True\<rparr>, db\<lparr>announcements_collection := pre @ post\<rparr>) \<and>
      fails_with 404 (delete_announcement po (db\<lparr>announcements_collection := pre @ post\<rparr>) i u)"
    if ex: "oid \<in> doc_id ` set (announcements_collection db)"
  proof -
    from delete_one_found[OF ex]
    obtain pre d post where p: "announcements_collection db = pre @ d # post"
        "doc_id d = oid" "oid \<notin> doc_id ` set pre"
        "delete_one (announcements_collection db) oid = (1, pre @ post)"
      by blast
    have "oid \<notin> doc_id ` set post" using dist p(1,2) by auto
    with p(3) have gone: "oid \<notin> doc_id ` set (pre @ post)" by auto
    have first: "delete_announcement po db i u =
        Inr (\<lparr>deleted_id = i, deleted = True\<rparr>, db\<lparr>announcements_collection := pre @ post\<rparr>)"
      unfolding delete_after_auth[where po = po and i = i, OF t oid] p(4) by simp
    have second: "fails_with 404
        (delete_announcement po (db\<lparr>announcements_collection := pre @ post\<rparr>) i u)"
      using absent[of "db\<lparr>announcements_collection := pre @ post\<rparr>"] gone by simp
    from p(1,2) first second show ?thesis by blast
  qed
  moreover have "fails_with 404 (delete_announcement po db i u)"
    if "oid \<notin> doc_id ` set (announcements_collection db)"
    using absent[of db] that by simp
  ultimately show ?thesis by blast
qed

text \<open>
  Deleting the stored announcement of the concrete installation twice, and deleting
  one that was never stored.
\<close>

theorem delete_once_twice_witness:
  "delete_announcement ex_ObjectId ex_db ''00000000000000000000000a'' (Some ''alice'') =
     Inr (\<lparr>deleted_id = ''00000000000000000000000a'', deleted = True\<rparr>,
          ex_db\<lparr>announcements_collection := []\<rparr>) \<and>
   fails_with 404
     (delete_announcement ex_ObjectId (ex_db\<lparr>announcements_collection := []\<rparr>)
        ''00000000000000000000000a'' (Some ''alice'')) \<and>
   fails_with 404
     (delete_announcement ex_ObjectId ex_db ''00000000000000000000000b'' (Some ''alice''))"
proof -
  from delete_once_twice[where po = ex_ObjectId and i = "''00000000000000000000000a''",
      OF ex_facts(1,2,6)] ex_facts(4)
  obtain pre d post where p: "announcements_collection ex_db = pre @ d # post"
    "delete_announcement ex_ObjectId ex_db ''00000000000000000000000a'' (Some ''alice'') =
       Inr (\<lparr>deleted_id = ''00000000000000000000000a'', deleted = True\<rparr>,
            ex_db\<lparr>announcements_collection := pre @ post\<rparr>)"
    "fails_with 404
       (delete_announcement ex_ObjectId (ex_db\<lparr>announcements_collection := pre @ post\<rparr>)
          ''00000000000000000000000a'' (Some ''alice''))"
    by blast
  from p(1) have "pre = [] \<and> post = []"
    by (cases pre) (simp_all add: ex_db_def)
  with p(2,3) have first: "delete_announcement ex_ObjectId ex_db ''00000000000000000000000a''
        (Some ''alice'') =
       Inr (\<lparr>deleted_id = ''00000000000000000000000a'', deleted = True\<rparr>,
            ex_db\<lparr>announcements_collection := []\<rparr>)"
    and second: "fails_with 404
       (delete_announcement ex_ObjectId (ex_db\<lparr>announcements_collection := []\<rparr>)
          ''00000000000000000000000a'' (Some ''alice''))"
    by simp_all
  have third: "fails_with 404
     (delete_announcement ex_ObjectId ex_db ''00000000000000000000000b'' (Some ''alice''))"
    using delete_once_twice[where po = ex_ObjectId and i = "''00000000000000000000000b''",
      OF ex_facts(1,3,6)] ex_facts(5) by blast
  from first second third show ?thesis by blast
qed

end
